theory Spec2Isabelle
  imports Complex_Main "HOL-Library.Signed_Division"
begin

section \<open>Data model\<close>

text \<open>
  The C++ sources compute with \<open>float\<close>, \<open>int\<close> and \<open>unsigned int\<close>.
  A \<open>float\<close> is modelled as a \<open>real\<close>: rounding, infinities and NaN are not
  represented, so every statement below about a computed number is a statement about the
  formula the code evaluates. An \<open>int\<close> is an \<open>int\<close>. An \<open>unsigned int\<close> loop
  counter is a \<open>nat\<close>: it is only compared with the size of a vector and incremented,
  and it cannot wrap around before it reaches the size of a vector of fewer than
  \<open>2^32\<close> elements, which the vectors of classes and of boxes are.

  A data member \<open>foo_\<close> of a C++ class cannot keep its name, because a name that
  ends in an underscore is not an Isabelle identifier. It gets a tag for its class
  instead: \<open>foo_bb\<close> in \<open>BoundingBox\<close>, \<open>foo_bb3\<close> in \<open>BoundingBox3D\<close>,
  \<open>foo_det\<close> in \<open>Detect\<close>, \<open>foo_node\<close> in \<open>ROSDetector\<close>, \<open>foo_t2\<close> in
  \<open>Track2D\<close> and \<open>foo_t3\<close> in \<open>Track3D\<close>.

  \<open>std::vector::operator[]\<close> is unchecked in C++: an access outside the vector is
  undefined behaviour. The model makes it a value, \<open>Inl OutOfBounds\<close>, wherever a
  function can reach such an access.
\<close>

datatype error = OutOfBounds

text \<open>
  Modelled from the spec: class \<open>BoundingBox\<close> is declared in ObjectDetection.h, which is
  not among the sources. The record holds the members the sources read and write; the
  spec's \<open>BoundingBox2D\<close> lists the same ones.
\<close>

record BoundingBox =
  x_bb :: real
  y_bb :: real
  w_bb :: real
  h_bb :: real
  x_min_bb :: real
  x_max_bb :: real
  y_min_bb :: real
  y_max_bb :: real
  confidence_bb :: real
  class_id_bb :: nat
  valid_bb :: bool

section \<open>Detect: letterbox padding and its inverse (DetectionUtils.cpp)\<close>

text \<open>
  The members of \<open>Detect\<close> that \<open>padImage\<close>, \<open>adjustBoundingBoxes\<close> and
  \<open>generateDetectionImage\<close> use. The padded image itself and the detector object are
  left out: nothing below depends on them.
\<close>

record Detect =
  image_rows_det :: int
  image_cols_det :: int
  num_classes_det :: nat
  class_map_det :: "string list"
  image_size_det :: int
  r_det :: real
  padding_rows_det :: int
  padding_cols_det :: int

text \<open>
  \<open>Detect::Detect\<close> and \<open>Detect::buildDetect\<close>: the side of the square is the larger
  of the configured width and height. \<open>r_\<close> and the paddings are set by \<open>padImage\<close>
  only; the constructor leaves them as they are (\<open>r0\<close>, \<open>pr0\<close>, \<open>pc0\<close>).
\<close>

definition buildDetect :: "int \<Rightarrow> int \<Rightarrow> nat \<Rightarrow> string list \<Rightarrow> real \<Rightarrow> int \<Rightarrow> int \<Rightarrow> Detect" where
  "buildDetect image_height image_width num_classes class_map r0 pr0 pc0 =
     \<lparr> image_rows_det = image_height,
       image_cols_det = image_width,
       num_classes_det = num_classes,
       class_map_det = class_map,
       image_size_det = max image_width image_height,
       r_det = r0,
       padding_rows_det = pr0,
       padding_cols_det = pc0 \<rparr>"

text \<open>
  \<open>Detect::padImage\<close>. \<open>img\<close> is (rows, cols) of the incoming frame and \<open>tmp\<close> is
  (rows, cols) of what \<open>cv::resize\<close> (OpenCV, outside the repository) returns for the
  scale \<open>r_\<close>. The two paddings are C++ integer divisions, which truncate.
\<close>

definition padImage :: "Detect \<Rightarrow> int \<times> int \<Rightarrow> int \<times> int \<Rightarrow> Detect" where
  "padImage d img tmp =
     d \<lparr> r_det := real_of_int (image_size_det d) / real_of_int (max (fst img) (snd img)),
         padding_rows_det := (image_size_det d - fst tmp) sdiv 2,
         padding_cols_det := (image_size_det d - snd tmp) sdiv 2 \<rparr>"

text \<open>
  The body of the two loops of \<open>Detect::adjustBoundingBoxes\<close>, statement by statement:
  the centre is shifted and scaled first, the corners are computed from the new centre and
  the old extent, and the extent is scaled last. The divisions by \<open>r_\<close> are divisions
  of real numbers: the code rounds each quotient to binary32, the model does not. Where a
  statement below depends on the exact value of a quotient, it is made for \<open>r_ = 1\<close>,
  where the division changes nothing in the code either.
\<close>

definition adjust_box :: "Detect \<Rightarrow> BoundingBox \<Rightarrow> BoundingBox" where
  "adjust_box d b =
     (if \<not> valid_bb b then b
      else
        let b = b \<lparr> x_bb := x_bb b - real_of_int (padding_cols_det d) \<rparr>;
            b = b \<lparr> y_bb := y_bb b - real_of_int (padding_rows_det d) \<rparr>;
            b = b \<lparr> x_bb := x_bb b / r_det d \<rparr>;
            b = b \<lparr> y_bb := y_bb b / r_det d \<rparr>;
            b = b \<lparr> x_min_bb := x_bb b - w_bb b / (2 * r_det d) \<rparr>;
            b = b \<lparr> x_max_bb := x_bb b + w_bb b / (2 * r_det d) \<rparr>;
            b = b \<lparr> y_min_bb := y_bb b - h_bb b / (2 * r_det d) \<rparr>;
            b = b \<lparr> y_max_bb := y_bb b + h_bb b / (2 * r_det d) \<rparr>;
            b = b \<lparr> h_bb := h_bb b / r_det d \<rparr>;
            b = b \<lparr> w_bb := w_bb b / r_det d \<rparr>
        in b)"

text \<open>
  \<open>Detect::adjustBoundingBoxes\<close>: both loops start at 0 and stop at the vector's size,
  so every box of every class is visited once, in place.
\<close>

definition adjustBoundingBoxes :: "Detect \<Rightarrow> BoundingBox list list \<Rightarrow> BoundingBox list list" where
  "adjustBoundingBoxes d bboxes = map (map (adjust_box d)) bboxes"

section \<open>ROSDetector: the in-image tracking node\<close>

text \<open>
  The members of \<open>ROSDetector\<close> (detect_locate_and_in_image_tracking_node.cpp) that its
  own \<open>padImage\<close>, \<open>adjustBoundingBoxes\<close> and \<open>cast2states\<close> use.
\<close>

record ROSDetector =
  image_size_node :: int
  image_rows_node :: int
  image_cols_node :: int
  padding_rows_node :: int
  padding_cols_node :: int
  min_bbox_width_node :: real
  min_bbox_height_node :: real
  max_bbox_width_node :: real
  max_bbox_height_node :: real

text \<open>
  \<open>ROSDetector::padImage\<close>: only a frame whose larger side is \<open>image_size_\<close> is
  handled (scale 1); any other frame is reported as not implemented and changes nothing.
\<close>

definition padImage_node :: "ROSDetector \<Rightarrow> int \<times> int \<Rightarrow> ROSDetector" where
  "padImage_node d img =
     (if real_of_int (image_size_node d) / real_of_int (max (fst img) (snd img)) \<noteq> 1 then d
      else d \<lparr> padding_rows_node := (image_size_node d - fst img) sdiv 2,
               padding_cols_node := (image_size_node d - snd img) sdiv 2 \<rparr>)"

text \<open>
  The loop body of \<open>ROSDetector::adjustBoundingBoxes\<close>: the centre is shifted, the
  corners are clamped to the image rectangle, the extent is left as it is.
\<close>

definition adjust_box_node :: "ROSDetector \<Rightarrow> BoundingBox \<Rightarrow> BoundingBox" where
  "adjust_box_node d b =
     (if \<not> valid_bb b then b
      else
        let b = b \<lparr> x_bb := x_bb b - real_of_int (padding_cols_node d) \<rparr>;
            b = b \<lparr> y_bb := y_bb b - real_of_int (padding_rows_node d) \<rparr>;
            b = b \<lparr> x_min_bb := max (x_bb b - w_bb b / 2) 0 \<rparr>;
            b = b \<lparr> x_max_bb := min (x_bb b + w_bb b / 2) (real_of_int (image_cols_node d)) \<rparr>;
            b = b \<lparr> y_min_bb := max (y_bb b - h_bb b / 2) 0 \<rparr>;
            b = b \<lparr> y_max_bb := min (y_bb b + h_bb b / 2) (real_of_int (image_rows_node d)) \<rparr>
        in b)"

definition adjustBoundingBoxes_node :: "ROSDetector \<Rightarrow> BoundingBox list list \<Rightarrow> BoundingBox list list" where
  "adjustBoundingBoxes_node d bboxes = map (map (adjust_box_node d)) bboxes"

section \<open>Loops and vector writes\<close>

text \<open>
  \<open>for (unsigned int k = k0; k < n; k++) s = body(k, s)\<close>: the loop of every function
  below. The body returns the new state, or the error it ran into; \<open>continue\<close> is a body
  that returns the state it was given. The bound \<open>n\<close> is the size of a vector the body
  does not resize.
\<close>

function for_loop :: "nat \<Rightarrow> nat \<Rightarrow> (nat \<Rightarrow> 's \<Rightarrow> error + 's) \<Rightarrow> 's \<Rightarrow> error + 's" where
  "for_loop k n body s =
     (if k < n then
        (case body k s of
           Inl e \<Rightarrow> Inl e
         | Inr s' \<Rightarrow> for_loop (Suc k) n body s')
      else Inr s)"
  by pat_completeness auto
termination
  by (relation "measure (\<lambda>(k, n, body, s). n - k)") auto

declare for_loop.simps [simp del]

text \<open>
  A sequence of assignments \<open>v[k] = a\<close> to a \<open>std::vector<float>\<close>, in order. An index
  outside the vector is the error.
\<close>

fun writes :: "(nat \<times> real) list \<Rightarrow> real list \<Rightarrow> error + real list" where
  "writes [] v = Inr v"
| "writes ((k, a) # ws) v = (if k < length v then writes ws (v[k := a]) else Inl OutOfBounds)"

section \<open>Detect: drawing the detections\<close>

text \<open>
  What the drawing loops do to the image: a rectangle at \<open>(x_min, y_min)\<close> of extent
  \<open>(w, h)\<close> and a label at \<open>(x_min, y_min - 10)\<close>, each with the index of its colour in
  the palette.
\<close>

datatype draw =
    Rectangle real real real real nat
  | PutText string real real nat

text \<open>
  \<open>Detect::generateDetectionImage\<close>. The inner loop runs while
  \<open>j < bboxes[i].size() + 1\<close>, and its first statement reads \<open>bboxes[i][j].valid_\<close>.
  The image is the list of what has been drawn on it.
\<close>

definition generateDetectionImage :: "Detect \<Rightarrow> draw list \<Rightarrow> BoundingBox list list \<Rightarrow> error + draw list" where
  "generateDetectionImage d img bboxes =
     for_loop 0 (length bboxes) (\<lambda>i img.
       for_loop 0 (length (bboxes ! i) + 1) (\<lambda>j img.
         if j < length (bboxes ! i) then
           (let b = bboxes ! i ! j in
            if \<not> valid_bb b then Inr img
            else if i < length (class_map_det d) then
              Inr (img @ [Rectangle (x_min_bb b) (y_min_bb b) (w_bb b) (h_bb b) 0,
                            PutText (class_map_det d ! i) (x_min_bb b) (y_min_bb b - 10) i])
            else Inl OutOfBounds)
         else Inl OutOfBounds) img) img"

text \<open>
  The same loop as it stands in \<open>ROSDetector::imageCallback\<close> of the in-image tracking
  node (under \<open>PUBLISH_DETECTION_IMAGE\<close>); the labels come from the global \<open>ClassMap\<close>.
\<close>

definition imageCallback_draw :: "string list \<Rightarrow> draw list \<Rightarrow> BoundingBox list list \<Rightarrow> error + draw list" where
  "imageCallback_draw ClassMap img bboxes =
     for_loop 0 (length bboxes) (\<lambda>i img.
       for_loop 0 (length (bboxes ! i) + 1) (\<lambda>j img.
         if j < length (bboxes ! i) then
           (let b = bboxes ! i ! j in
            if \<not> valid_bb b then Inr img
            else if i < length ClassMap then
              Inr (img @ [Rectangle (x_min_bb b) (y_min_bb b) (w_bb b) (h_bb b) 0,
                            PutText (ClassMap ! i) (x_min_bb b) (y_min_bb b - 10) i])
            else Inl OutOfBounds)
         else Inl OutOfBounds) img) img"

text \<open>
  The drawing loop of \<open>ROSDetector::imageCallback\<close> in the global tracking node
  (detect_locate_and_global_tracking_node.cpp): the inner loop runs while
  \<open>j < bboxes[i].size()\<close>, and the rectangle takes the colour of its class.
\<close>

definition imageCallback_draw_global :: "string list \<Rightarrow> draw list \<Rightarrow> BoundingBox list list \<Rightarrow> error + draw list" where
  "imageCallback_draw_global ClassMap img bboxes =
     for_loop 0 (length bboxes) (\<lambda>i img.
       for_loop 0 (length (bboxes ! i)) (\<lambda>j img.
         if j < length (bboxes ! i) then
           (let b = bboxes ! i ! j in
            if \<not> valid_bb b then Inr img
            else if i < length ClassMap then
              Inr (img @ [Rectangle (x_min_bb b) (y_min_bb b) (w_bb b) (h_bb b) i,
                            PutText (ClassMap ! i) (x_min_bb b) (y_min_bb b - 10) i])
            else Inl OutOfBounds)
         else Inl OutOfBounds) img) img"

section \<open>Locate: 3D boxes from 2D boxes and positions\<close>

text \<open>
  Modelled from the spec: class \<open>BoundingBox3D\<close> and its constructor are declared in
  ObjectDetection.h, which is not among the sources. The spec gives it a centre
  \<open>(x, y, z)\<close>, extents \<open>(w, d, h)\<close>, a confidence, a class id and a valid flag; the
  constructor takes them in that order. What the constructor sets the valid flag to is not
  visible, so it is the parameter \<open>v\<close>.
\<close>

record BoundingBox3D =
  x_bb3 :: real
  y_bb3 :: real
  z_bb3 :: real
  w_bb3 :: real
  d_bb3 :: real
  h_bb3 :: real
  confidence_bb3 :: real
  class_id_bb3 :: nat
  valid_bb3 :: bool

definition BoundingBox3D_ctor ::
  "bool \<Rightarrow> real \<Rightarrow> real \<Rightarrow> real \<Rightarrow> real \<Rightarrow> real \<Rightarrow> real \<Rightarrow> real \<Rightarrow> nat \<Rightarrow> BoundingBox3D" where
  "BoundingBox3D_ctor v x y z w d h confidence class_id =
     \<lparr> x_bb3 = x, y_bb3 = y, z_bb3 = z, w_bb3 = w, d_bb3 = d, h_bb3 = h,
       confidence_bb3 = confidence, class_id_bb3 = class_id, valid_bb3 = v \<rparr>"

text \<open>
  \<open>Locate::make3DBoundingBoxes\<close>. \<open>fx\<close> and \<open>fy\<close> are what \<open>PE_->getFx()\<close> and
  \<open>PE_->getFy()\<close> return. The loops run over \<open>points\<close>; \<open>bboxes[i][j]\<close> and
  \<open>points[i][j][0..2]\<close> are read at the same indices.
\<close>

definition make3DBoundingBoxes ::
  "real \<Rightarrow> real \<Rightarrow> bool \<Rightarrow> real list list list \<Rightarrow> BoundingBox list list \<Rightarrow> error + BoundingBox3D list list" where
  "make3DBoundingBoxes fx fy v points bboxes =
     for_loop 0 (length points) (\<lambda>i bboxes3D.
       (case for_loop 0 (length (points ! i)) (\<lambda>j tmp_bboxes3D.
               if i < length bboxes \<and> j < length (bboxes ! i) \<and> 2 < length (points ! i ! j) then
                 (let new_w = points ! i ! j ! 2 * w_bb (bboxes ! i ! j) / fx;
                      new_h = points ! i ! j ! 2 * h_bb (bboxes ! i ! j) / fy;
                      tmp = BoundingBox3D_ctor v (points ! i ! j ! 0) (points ! i ! j ! 1)
                              (points ! i ! j ! 2) new_w new_w new_h
                              (confidence_bb (bboxes ! i ! j)) (class_id_bb (bboxes ! i ! j))
                  in Inr (tmp_bboxes3D @ [tmp]))
               else Inl OutOfBounds) []
        of Inl e \<Rightarrow> Inl e
         | Inr tmp_bboxes3D \<Rightarrow> Inr (bboxes3D @ [tmp_bboxes3D]))) []"

section \<open>Track2D\<close>

text \<open>
  The parameter structures the constructors read. Their declarations are not among the
  sources; the fields are the ones the constructors name.
\<close>

record DetectionParameters =
  num_classes :: nat
  class_map :: "string list"

record KalmanParameters =
  Q :: "real list"
  R :: "real list"
  use_dim :: bool
  use_vel :: bool

record TrackingParameters =
  distance_thresh :: real
  center_thresh :: real
  area_thresh :: real
  body_ratio :: real
  dt :: real
  max_frames_to_skip :: int

record BBoxRejectionParameters =
  min_bbox_width :: real
  max_bbox_width :: real
  min_bbox_height :: real
  max_bbox_height :: real

text \<open>
  The members of \<open>Track2D\<close>. Class \<open>Tracker2D\<close> (Tracker.cpp) is not among the sources:
  a tracker is a value of the type \<open>'tr\<close>, and its constructor, \<open>update\<close> and
  \<open>getStates\<close> are parameters of the functions that call them.
\<close>

record 'tr Track2D =
  Q_t2 :: "real list"
  R_t2 :: "real list"
  dist_threshold_t2 :: real
  center_threshold_t2 :: real
  area_threshold_t2 :: real
  body_ratio_t2 :: real
  use_dim_t2 :: bool
  use_vel_t2 :: bool
  dt_t2 :: real
  max_frames_to_skip_t2 :: int
  min_bbox_width_t2 :: real
  max_bbox_width_t2 :: real
  min_bbox_height_t2 :: real
  max_bbox_height_t2 :: real
  class_map_t2 :: "string list"
  Trackers_t2 :: "'tr list"

type_synonym 'tr new_Tracker =
  "int \<Rightarrow> real \<Rightarrow> real \<Rightarrow> real \<Rightarrow> real \<Rightarrow> real \<Rightarrow> bool \<Rightarrow> bool \<Rightarrow> real list \<Rightarrow> real list \<Rightarrow> 'tr"

text \<open>
  \<open>Track2D::Track2D(det_p, kal_p, tra_p, bbo_p)\<close>, assignment by assignment, then one
  tracker per class pushed onto the empty \<open>Trackers_\<close>.
\<close>

definition Track2D_ctor ::
  "'tr new_Tracker \<Rightarrow> DetectionParameters \<Rightarrow> KalmanParameters \<Rightarrow> TrackingParameters \<Rightarrow>
   BBoxRejectionParameters \<Rightarrow> 'tr Track2D" where
  "Track2D_ctor new_Tracker2D det_p kal_p tra_p bbo_p =
     \<lparr> Q_t2 = Q kal_p,
       R_t2 = R kal_p,
       dist_threshold_t2 = distance_thresh tra_p,
       center_threshold_t2 = center_thresh tra_p,
       area_threshold_t2 = area_thresh tra_p,
       body_ratio_t2 = body_ratio tra_p,
       use_dim_t2 = use_dim kal_p,
       use_vel_t2 = use_vel kal_p,
       dt_t2 = dt tra_p,
       max_frames_to_skip_t2 = max_frames_to_skip tra_p,
       min_bbox_width_t2 = min_bbox_width bbo_p,
       max_bbox_width_t2 = max_bbox_width bbo_p,
       min_bbox_height_t2 = min_bbox_height bbo_p,
       max_bbox_height_t2 = max_bbox_width bbo_p,
       class_map_t2 = class_map det_p,
       Trackers_t2 =
         replicate (num_classes det_p)
           (new_Tracker2D (max_frames_to_skip tra_p) (distance_thresh tra_p) (center_thresh tra_p)
              (area_thresh tra_p) (body_ratio tra_p) (dt tra_p) (use_dim kal_p) (use_vel kal_p)
              (Q kal_p) (R kal_p)) \<rparr>"

text \<open>
  \<open>Track2D::buildTrack2D\<close>: the same assignments on an object that exists already; the
  new trackers are pushed behind the ones it has.
\<close>

definition buildTrack2D ::
  "'tr new_Tracker \<Rightarrow> 'tr Track2D \<Rightarrow> DetectionParameters \<Rightarrow> KalmanParameters \<Rightarrow> TrackingParameters \<Rightarrow>
   BBoxRejectionParameters \<Rightarrow> 'tr Track2D" where
  "buildTrack2D new_Tracker2D t det_p kal_p tra_p bbo_p =
     (Track2D_ctor new_Tracker2D det_p kal_p tra_p bbo_p)
       \<lparr> Trackers_t2 := Trackers_t2 t @ Trackers_t2 (Track2D_ctor new_Tracker2D det_p kal_p tra_p bbo_p) \<rparr>"

text \<open>
  The body of the inner loop of \<open>Track2D::cast2states\<close> for the box \<open>bboxes[i][j]\<close>: the
  five tests that skip the box, then the six assignments to \<open>state\<close> and the
  \<open>push_back\<close>. \<open>state\<close> is declared once, outside both loops, and is carried along.
\<close>

definition cast2states_body ::
  "'tr Track2D \<Rightarrow> BoundingBox list \<Rightarrow> nat \<Rightarrow> real list \<times> real list list \<Rightarrow> error + real list \<times> real list list" where
  "cast2states_body t row j = (\<lambda>(state, state_vec).
     (let b = row ! j in
      if \<not> valid_bb b then Inr (state, state_vec)
      else if h_bb b > max_bbox_height_t2 t then Inr (state, state_vec)
      else if w_bb b > max_bbox_width_t2 t then Inr (state, state_vec)
      else if h_bb b < min_bbox_height_t2 t then Inr (state, state_vec)
      else if w_bb b < min_bbox_width_t2 t then Inr (state, state_vec)
      else
        (case writes [(0, x_bb b), (1, y_bb b), (2, 0), (3, 0), (4, w_bb b), (5, h_bb b)] state of
           Inl e \<Rightarrow> Inl e
         | Inr state' \<Rightarrow> Inr (state', state_vec @ [state']))))"

text \<open>
  \<open>Track2D::cast2states\<close>. Both loops are written \<open>for (unsigned int i; ...)\<close> and
  \<open>for (unsigned int j; ...)\<close>: the counters have no initialiser, so the value each loop
  starts from is indeterminate. It is an input of the model: \<open>i0\<close> for the outer loop, and
  \<open>j0 i\<close> for the inner loop entered in the outer iteration \<open>i\<close>. \<open>state\<close> is a
  vector of six zeros at first; \<open>state_vec\<close> is cleared at the start of each outer
  iteration.
\<close>

definition cast2states ::
  "'tr Track2D \<Rightarrow> BoundingBox list list \<Rightarrow> nat \<Rightarrow> (nat \<Rightarrow> nat) \<Rightarrow> error + real list list list" where
  "cast2states t bboxes i0 j0 =
     (case for_loop i0 (length bboxes) (\<lambda>i (state, states).
             (case for_loop (j0 i) (length (bboxes ! i)) (cast2states_body t (bboxes ! i)) (state, [])
              of Inl e \<Rightarrow> Inl e
               | Inr (state', state_vec) \<Rightarrow> Inr (state', states @ [state_vec])))
           (replicate 6 0, [])
      of Inl e \<Rightarrow> Inl e
       | Inr (state, states) \<Rightarrow> Inr states)"

text \<open>
  \<open>ROSDetector::cast2states\<close> of the in-image tracking node: the same two loops
  without initialisers and the same five tests, on the node's own thresholds. The last two
  assignments are \<open>state[4] = h_\<close> and \<open>state[5] = w_\<close>. The third argument of the
  function, the points, is not used.
\<close>

definition cast2states_node_body ::
  "ROSDetector \<Rightarrow> BoundingBox list \<Rightarrow> nat \<Rightarrow> real list \<times> real list list \<Rightarrow> error + real list \<times> real list list" where
  "cast2states_node_body d row j = (\<lambda>(state, state_vec).
     (let b = row ! j in
      if \<not> valid_bb b then Inr (state, state_vec)
      else if h_bb b > max_bbox_height_node d then Inr (state, state_vec)
      else if w_bb b > max_bbox_width_node d then Inr (state, state_vec)
      else if h_bb b < min_bbox_height_node d then Inr (state, state_vec)
      else if w_bb b < min_bbox_width_node d then Inr (state, state_vec)
      else
        (case writes [(0, x_bb b), (1, y_bb b), (2, 0), (3, 0), (4, h_bb b), (5, w_bb b)] state of
           Inl e \<Rightarrow> Inl e
         | Inr state' \<Rightarrow> Inr (state', state_vec @ [state']))))"

definition cast2states_node ::
  "ROSDetector \<Rightarrow> BoundingBox list list \<Rightarrow> nat \<Rightarrow> (nat \<Rightarrow> nat) \<Rightarrow> error + real list list list" where
  "cast2states_node d bboxes i0 j0 =
     (case for_loop i0 (length bboxes) (\<lambda>i (state, states).
             (case for_loop (j0 i) (length (bboxes ! i)) (cast2states_node_body d (bboxes ! i)) (state, [])
              of Inl e \<Rightarrow> Inl e
               | Inr (state', state_vec) \<Rightarrow> Inr (state', states @ [state_vec])))
           (replicate 6 0, [])
      of Inl e \<Rightarrow> Inl e
       | Inr (state, states) \<Rightarrow> Inr states)"

text \<open>
  \<open>Track2D::track\<close> (the overload that takes \<open>dt\<close>). The loop runs over
  \<open>tracker_states\<close>, reads \<open>states[i]\<close> and \<open>Trackers_[i]\<close>, updates that tracker and
  lets it write its states into \<open>tracker_states[i]\<close>. \<open>i0\<close> and \<open>j0\<close> are the start
  values of the counters of \<open>cast2states\<close>.
\<close>

definition track ::
  "(real \<Rightarrow> real list list \<Rightarrow> 'tr \<Rightarrow> 'tr) \<Rightarrow> ('tr \<Rightarrow> 'm \<Rightarrow> 'm) \<Rightarrow> 'tr Track2D \<Rightarrow> BoundingBox list list \<Rightarrow>
   'm list \<Rightarrow> real \<Rightarrow> nat \<Rightarrow> (nat \<Rightarrow> nat) \<Rightarrow> error + 'tr Track2D \<times> 'm list" where
  "track update getStates t bboxes tracker_states delta i0 j0 =
     (case cast2states t bboxes i0 j0 of
        Inl e \<Rightarrow> Inl e
      | Inr states \<Rightarrow>
          for_loop 0 (length tracker_states) (\<lambda>i (t, tracker_states).
            if i < length states \<and> i < length (Trackers_t2 t) then
              (let states_to_track = states ! i;
                   tr = update delta states_to_track (Trackers_t2 t ! i)
               in Inr (t \<lparr> Trackers_t2 := (Trackers_t2 t)[i := tr] \<rparr>,
                       tracker_states[i := getStates tr (tracker_states ! i)]))
            else Inl OutOfBounds) (t, tracker_states))"

text \<open>The overload without \<open>dt\<close> passes the member \<open>dt_\<close>.\<close>

definition track_dt ::
  "(real \<Rightarrow> real list list \<Rightarrow> 'tr \<Rightarrow> 'tr) \<Rightarrow> ('tr \<Rightarrow> 'm \<Rightarrow> 'm) \<Rightarrow> 'tr Track2D \<Rightarrow> BoundingBox list list \<Rightarrow>
   'm list \<Rightarrow> nat \<Rightarrow> (nat \<Rightarrow> nat) \<Rightarrow> error + 'tr Track2D \<times> 'm list" where
  "track_dt update getStates t bboxes tracker_states i0 j0 =
     track update getStates t bboxes tracker_states (dt_t2 t) i0 j0"

section \<open>Track3D\<close>

record 'tr Track3D =
  Q_t3 :: "real list"
  R_t3 :: "real list"
  dist_threshold_t3 :: real
  center_threshold_t3 :: real
  area_threshold_t3 :: real
  body_ratio_t3 :: real
  use_dim_t3 :: bool
  use_vel_t3 :: bool
  dt_t3 :: real
  max_frames_to_skip_t3 :: int
  min_bbox_width_t3 :: real
  max_bbox_width_t3 :: real
  min_bbox_height_t3 :: real
  max_bbox_height_t3 :: real
  class_map_t3 :: "string list"
  Trackers_t3 :: "'tr list"

text \<open>\<open>Track3D::Track3D(det_p, kal_p, tra_p, bbo_p)\<close>, with \<open>Tracker3D\<close> objects.\<close>

definition Track3D_ctor ::
  "'tr new_Tracker \<Rightarrow> DetectionParameters \<Rightarrow> KalmanParameters \<Rightarrow> TrackingParameters \<Rightarrow>
   BBoxRejectionParameters \<Rightarrow> 'tr Track3D" where
  "Track3D_ctor new_Tracker3D det_p kal_p tra_p bbo_p =
     \<lparr> Q_t3 = Q kal_p,
       R_t3 = R kal_p,
       dist_threshold_t3 = distance_thresh tra_p,
       center_threshold_t3 = center_thresh tra_p,
       area_threshold_t3 = area_thresh tra_p,
       body_ratio_t3 = body_ratio tra_p,
       use_dim_t3 = use_dim kal_p,
       use_vel_t3 = use_vel kal_p,
       dt_t3 = dt tra_p,
       max_frames_to_skip_t3 = max_frames_to_skip tra_p,
       min_bbox_width_t3 = min_bbox_width bbo_p,
       max_bbox_width_t3 = max_bbox_width bbo_p,
       min_bbox_height_t3 = min_bbox_height bbo_p,
       max_bbox_height_t3 = max_bbox_width bbo_p,
       class_map_t3 = class_map det_p,
       Trackers_t3 =
         replicate (num_classes det_p)
           (new_Tracker3D (max_frames_to_skip tra_p) (distance_thresh tra_p) (center_thresh tra_p)
              (area_thresh tra_p) (body_ratio tra_p) (dt tra_p) (use_dim kal_p) (use_vel kal_p)
              (Q kal_p) (R kal_p)) \<rparr>"

definition buildTrack3D ::
  "'tr new_Tracker \<Rightarrow> 'tr Track3D \<Rightarrow> DetectionParameters \<Rightarrow> KalmanParameters \<Rightarrow> TrackingParameters \<Rightarrow>
   BBoxRejectionParameters \<Rightarrow> 'tr Track3D" where
  "buildTrack3D new_Tracker3D t det_p kal_p tra_p bbo_p =
     (Track3D_ctor new_Tracker3D det_p kal_p tra_p bbo_p)
       \<lparr> Trackers_t3 := Trackers_t3 t @ Trackers_t3 (Track3D_ctor new_Tracker3D det_p kal_p tra_p bbo_p) \<rparr>"

text \<open>
  The body of the inner loop of \<open>Track3D::cast2states\<close>: the same five tests, then nine
  assignments, to \<open>state[0]\<close> up to \<open>state[8]\<close>.
\<close>

definition cast2states3D_body ::
  "'tr Track3D \<Rightarrow> BoundingBox3D list \<Rightarrow> nat \<Rightarrow> real list \<times> real list list \<Rightarrow> error + real list \<times> real list list" where
  "cast2states3D_body t row j = (\<lambda>(state, state_vec).
     (let b = row ! j in
      if \<not> valid_bb3 b then Inr (state, state_vec)
      else if h_bb3 b > max_bbox_height_t3 t then Inr (state, state_vec)
      else if w_bb3 b > max_bbox_width_t3 t then Inr (state, state_vec)
      else if h_bb3 b < min_bbox_height_t3 t then Inr (state, state_vec)
      else if w_bb3 b < min_bbox_width_t3 t then Inr (state, state_vec)
      else
        (case writes [(0, x_bb3 b), (1, y_bb3 b), (2, z_bb3 b), (3, 0), (4, 0), (5, 0),
                      (6, w_bb3 b), (7, d_bb3 b), (8, h_bb3 b)] state of
           Inl e \<Rightarrow> Inl e
         | Inr state' \<Rightarrow> Inr (state', state_vec @ [state']))))"

text \<open>
  \<open>Track3D::cast2states\<close>: \<open>std::vector<float> state(6)\<close>, and the same two loops
  without initialisers as in \<open>Track2D::cast2states\<close>.
\<close>

definition cast2states3D ::
  "'tr Track3D \<Rightarrow> BoundingBox3D list list \<Rightarrow> nat \<Rightarrow> (nat \<Rightarrow> nat) \<Rightarrow> error + real list list list" where
  "cast2states3D t bboxes i0 j0 =
     (case for_loop i0 (length bboxes) (\<lambda>i (state, states).
             (case for_loop (j0 i) (length (bboxes ! i)) (cast2states3D_body t (bboxes ! i)) (state, [])
              of Inl e \<Rightarrow> Inl e
               | Inr (state', state_vec) \<Rightarrow> Inr (state', states @ [state_vec])))
           (replicate 6 0, [])
      of Inl e \<Rightarrow> Inl e
       | Inr (state, states) \<Rightarrow> Inr states)"

section \<open>Vocabulary of the statements\<close>

text \<open>
  Two abbreviations used to state what \<open>cast2states\<close> computes. \<open>accepted t b\<close> says that
  none of the five tests of the loop body skips \<open>b\<close>, with the thresholds as \<open>t\<close> holds
  them; \<open>state_of b\<close> is the vector the six assignments leave in \<open>state\<close>.
  \<open>accepted3D\<close> is the same for \<open>Track3D\<close>.
\<close>

definition accepted :: "'tr Track2D \<Rightarrow> BoundingBox \<Rightarrow> bool" where
  "accepted t b =
     (valid_bb b \<and> \<not> h_bb b > max_bbox_height_t2 t \<and> \<not> w_bb b > max_bbox_width_t2 t \<and>
      \<not> h_bb b < min_bbox_height_t2 t \<and> \<not> w_bb b < min_bbox_width_t2 t)"

definition state_of :: "BoundingBox \<Rightarrow> real list" where
  "state_of b = [x_bb b, y_bb b, 0, 0, w_bb b, h_bb b]"

definition accepted3D :: "'tr Track3D \<Rightarrow> BoundingBox3D \<Rightarrow> bool" where
  "accepted3D t b =
     (valid_bb3 b \<and> \<not> h_bb3 b > max_bbox_height_t3 t \<and> \<not> w_bb3 b > max_bbox_width_t3 t \<and>
      \<not> h_bb3 b < min_bbox_height_t3 t \<and> \<not> w_bb3 b < min_bbox_width_t3 t)"

section \<open>Inputs of the worked examples\<close>

text \<open>
  A \<open>Detect\<close> configured for frames of 640 columns by 480 rows, after \<open>padImage\<close> on
  such a frame: the square has side 640, the scale is 1, and 80 rows of padding lie above
  and below the frame. \<open>ex_node\<close> is the node in the same situation.
\<close>

definition ex_detect :: Detect where
  "ex_detect = padImage (buildDetect 480 640 1 [''object''] 1 0 0) (480, 640) (480, 640)"

definition ex_node :: ROSDetector where
  "ex_node = padImage_node \<lparr> image_size_node = 640, image_rows_node = 480, image_cols_node = 640,
                  padding_rows_node = 0, padding_cols_node = 0,
                  min_bbox_width_node = 60, min_bbox_height_node = 60,
                  max_bbox_width_node = 400, max_bbox_height_node = 300 \<rparr> (480, 640)"

definition ex_box :: "real \<Rightarrow> real \<Rightarrow> real \<Rightarrow> real \<Rightarrow> bool \<Rightarrow> BoundingBox" where
  "ex_box x y w h v =
     \<lparr> x_bb = x, y_bb = y, w_bb = w, h_bb = h, x_min_bb = x - w / 2, x_max_bb = x + w / 2,
       y_min_bb = y - h / 2, y_max_bb = y + h / 2, confidence_bb = 1, class_id_bb = 0, valid_bb = v \<rparr>"


text \<open>
  Parameters with the defaults of the tracking node: boxes are kept when their width lies
  in \<open>[60, 400]\<close> and their height in \<open>[60, 300]\<close>. For \<open>Track3D\<close>, whose boxes are in
  metres, the bounds are \<open>[1/10, 3]\<close> and \<open>[1/10, 2]\<close>. Two classes.
\<close>

definition ex_det_p :: DetectionParameters where
  "ex_det_p = \<lparr> num_classes = 2, class_map = [''drone'', ''person''] \<rparr>"

definition ex_kal_p :: KalmanParameters where
  "ex_kal_p = \<lparr> Q = [9, 9, 200, 200, 5, 5], R = [2, 2, 200, 200, 2, 2], use_dim = True, use_vel = False \<rparr>"

definition ex_tra_p :: TrackingParameters where
  "ex_tra_p = \<lparr> distance_thresh = 150, center_thresh = 80, area_thresh = 3, body_ratio = 1 / 2,
                dt = 1 / 50, max_frames_to_skip = 15 \<rparr>"

definition ex_bbo_p :: BBoxRejectionParameters where
  "ex_bbo_p = \<lparr> min_bbox_width = 60, max_bbox_width = 400, min_bbox_height = 60, max_bbox_height = 300 \<rparr>"

definition ex_bbo_p3 :: BBoxRejectionParameters where
  "ex_bbo_p3 = \<lparr> min_bbox_width = 1 / 10, max_bbox_width = 3, min_bbox_height = 1 / 10, max_bbox_height = 2 \<rparr>"

text \<open>
  A stand-in for the tracker class: the tracker is the list of the measurement lists it
  has been updated with, oldest first, and \<open>getStates\<close> hands that list out.
\<close>

definition ex_new_Tracker :: "(real list list list) new_Tracker" where
  "ex_new_Tracker = (\<lambda>max_frames_to_skip dist_threshold center_threshold area_threshold body_ratio
                      dt use_dim use_vel Q R. [])"

definition ex_update :: "real \<Rightarrow> real list list \<Rightarrow> real list list list \<Rightarrow> real list list list" where
  "ex_update delta states tr = tr @ [states]"

definition ex_getStates :: "real list list list \<Rightarrow> real list list list \<Rightarrow> real list list list" where
  "ex_getStates tr tracker_states = tr"

definition ex_track2D :: "(real list list list) Track2D" where
  "ex_track2D = Track2D_ctor ex_new_Tracker ex_det_p ex_kal_p ex_tra_p ex_bbo_p"

definition ex_track3D :: "(real list list list) Track3D" where
  "ex_track3D = Track3D_ctor ex_new_Tracker ex_det_p ex_kal_p ex_tra_p ex_bbo_p3"

definition ex_box3D :: BoundingBox3D where
  "ex_box3D = BoundingBox3D_ctor True (2 / 5) 0 2 (1 / 2) (1 / 2) 1 1 0"

text \<open>
  One point for the one box of class 0, none for class 1: two metres in front of the
  camera and 0.4 m to the right.
\<close>

definition ex_points :: "real list list list" where
  "ex_points = [[[2 / 5, 0, 2]], []]"

section \<open>Properties of the letterbox inverse\<close>

lemma ex_detect_simps:
  "r_det ex_detect = 1" "padding_rows_det ex_detect = 80" "padding_cols_det ex_detect = 0"
  "image_rows_det ex_detect = 480" "image_cols_det ex_detect = 640" "image_size_det ex_detect = 640"
  by (simp_all add: ex_detect_def padImage_def buildDetect_def signed_divide_int_def)

lemma ex_node_simps:
  "padding_rows_node ex_node = 80" "padding_cols_node ex_node = 0"
  "image_rows_node ex_node = 480" "image_cols_node ex_node = 640"
  "min_bbox_width_node ex_node = 60" "min_bbox_height_node ex_node = 60"
  "max_bbox_width_node ex_node = 400" "max_bbox_height_node ex_node = 300"
  by (simp_all add: ex_node_def padImage_node_def signed_divide_int_def)

lemma ex_box_simps:
  "x_bb (ex_box x y w h v) = x" "y_bb (ex_box x y w h v) = y" "w_bb (ex_box x y w h v) = w"
  "h_bb (ex_box x y w h v) = h" "valid_bb (ex_box x y w h v) = v"
  by (simp_all add: ex_box_def)

lemma adjust_box_valid:
  "valid_bb b \<Longrightarrow>
   adjust_box d b =
     b \<lparr> x_bb := (x_bb b - real_of_int (padding_cols_det d)) / r_det d,
         y_bb := (y_bb b - real_of_int (padding_rows_det d)) / r_det d,
         w_bb := w_bb b / r_det d,
         h_bb := h_bb b / r_det d,
         x_min_bb := (x_bb b - real_of_int (padding_cols_det d)) / r_det d - (w_bb b / r_det d) / 2,
         x_max_bb := (x_bb b - real_of_int (padding_cols_det d)) / r_det d + (w_bb b / r_det d) / 2,
         y_min_bb := (y_bb b - real_of_int (padding_rows_det d)) / r_det d - (h_bb b / r_det d) / 2,
         y_max_bb := (y_bb b - real_of_int (padding_rows_det d)) / r_det d + (h_bb b / r_det d) / 2 \<rparr>"
  by (simp add: adjust_box_def Let_def)

lemma adjust_box_invalid: "\<not> valid_bb b \<Longrightarrow> adjust_box d b = b"
  by (simp add: adjust_box_def)

lemma adjust_box_node_invalid: "\<not> valid_bb b \<Longrightarrow> adjust_box_node d b = b"
  by (simp add: adjust_box_node_def)

lemma adjustBoundingBoxes_nth:
  "i < length bboxes \<Longrightarrow> j < length (bboxes ! i) \<Longrightarrow>
   adjustBoundingBoxes d bboxes ! i ! j = adjust_box d (bboxes ! i ! j)"
  by (simp add: adjustBoundingBoxes_def)

lemma adjustBoundingBoxes_node_nth:
  "i < length bboxes \<Longrightarrow> j < length (bboxes ! i) \<Longrightarrow>
   adjustBoundingBoxes_node d bboxes ! i ! j = adjust_box_node d (bboxes ! i ! j)"
  by (simp add: adjustBoundingBoxes_node_def)

lemma adjustBoundingBoxes_shape:
  "length (adjustBoundingBoxes d bboxes) = length bboxes \<and>
   (\<forall>i < length bboxes. length (adjustBoundingBoxes d bboxes ! i) = length (bboxes ! i))"
  by (simp add: adjustBoundingBoxes_def)

text \<open>
  C4. For every valid incoming bounding box, \<open>Detect::adjustBoundingBoxes\<close> applies the
  letterbox inverse mapping: \<open>x\<close> becomes \<open>(x - padding_cols) / r\<close>, \<open>y\<close> becomes
  \<open>(y - padding_rows) / r\<close>, \<open>w\<close> becomes \<open>w / r\<close>, \<open>h\<close> becomes \<open>h / r\<close>, and each
  corner is the new centre plus or minus half the new extent. Confidence, class id and the
  valid flag are left as they were.
\<close>

theorem C4_adjustBoundingBoxes_inverse_mapping:
  assumes "i < length bboxes" and "j < length (bboxes ! i)" and "valid_bb (bboxes ! i ! j)"
  shows "adjustBoundingBoxes d bboxes ! i ! j =
     (bboxes ! i ! j)
       \<lparr> x_bb := (x_bb (bboxes ! i ! j) - real_of_int (padding_cols_det d)) / r_det d,
         y_bb := (y_bb (bboxes ! i ! j) - real_of_int (padding_rows_det d)) / r_det d,
         w_bb := w_bb (bboxes ! i ! j) / r_det d,
         h_bb := h_bb (bboxes ! i ! j) / r_det d,
         x_min_bb := (x_bb (bboxes ! i ! j) - real_of_int (padding_cols_det d)) / r_det d
                     - (w_bb (bboxes ! i ! j) / r_det d) / 2,
         x_max_bb := (x_bb (bboxes ! i ! j) - real_of_int (padding_cols_det d)) / r_det d
                     + (w_bb (bboxes ! i ! j) / r_det d) / 2,
         y_min_bb := (y_bb (bboxes ! i ! j) - real_of_int (padding_rows_det d)) / r_det d
                     - (h_bb (bboxes ! i ! j) / r_det d) / 2,
         y_max_bb := (y_bb (bboxes ! i ! j) - real_of_int (padding_rows_det d)) / r_det d
                     + (h_bb (bboxes ! i ! j) / r_det d) / 2 \<rparr>"
  using assms by (simp add: adjustBoundingBoxes_nth adjust_box_valid)

theorem C4_witness:
  "0 < length [[ex_box 320 100 40 60 True]] \<and> 0 < length ([[ex_box 320 100 40 60 True]] ! 0) \<and>
   valid_bb ([[ex_box 320 100 40 60 True]] ! 0 ! 0) \<and>
   adjustBoundingBoxes ex_detect [[ex_box 320 100 40 60 True]] ! 0 ! 0 =
     \<lparr> x_bb = 320, y_bb = 20, w_bb = 40, h_bb = 60, x_min_bb = 300, x_max_bb = 340,
       y_min_bb = -10, y_max_bb = 50, confidence_bb = 1, class_id_bb = 0, valid_bb = True \<rparr>"
  using C4_adjustBoundingBoxes_inverse_mapping [of 0 "[[ex_box 320 100 40 60 True]]" 0 ex_detect]
  by (simp add: ex_detect_simps ex_box_def)

subsection \<open>Where the centre lands\<close>



text \<open>
  For a scaled frame the rounding of the quotient matters. A frame of 1920 columns by 1080
  rows in a square of side 640 gives 140 rows of padding and, in binary32, the scale
  \<open>11184811 / 2^25\<close>, the number next to 1/3. A centre at \<open>y = 300\<close> lies in the
  preimage of \<open>[0, 480)\<close>, but the exact quotient \<open>(300 - 140) / r_\<close> is less than
  \<open>2^-16\<close> below 480, where the binary32 numbers are \<open>2^-15\<close> apart: the code stores
  480.
\<close>

lemma scaled_quotient_next_to_bound:
  "(140::real) \<le> 300 \<and> (300::real) < 140 + (11184811 / 33554432) * 480 \<and>
   (480::real) - 1 / 65536 < (300 - 140) / (11184811 / 33554432) \<and>
   (300 - 140) / (11184811 / 33554432) < (480::real)"
  by simp




subsection \<open>The box invariant after the adjustment\<close>







section \<open>Properties of the loops\<close>

lemma for_loop_stop: "\<not> k < n \<Longrightarrow> for_loop k n body s = Inr s"
  by (simp add: for_loop.simps)

lemma for_loop_step:
  "k < n \<Longrightarrow>
   for_loop k n body s =
     (case body k s of Inl e \<Rightarrow> Inl e | Inr s' \<Rightarrow> for_loop (Suc k) n body s')"
  by (subst for_loop.simps) simp

lemma for_loop_fail: "k < n \<Longrightarrow> body k s = Inl e \<Longrightarrow> for_loop k n body s = Inl e"
  by (simp add: for_loop_step)

lemma for_loop_next: "k < n \<Longrightarrow> body k s = Inr s' \<Longrightarrow> for_loop k n body s = for_loop (Suc k) n body s'"
  by (simp add: for_loop_step)

lemma for_loop_collect:
  assumes "\<And>k acc. i \<le> k \<Longrightarrow> k < n \<Longrightarrow> body k acc = Inr (acc @ [g k])"
  shows "for_loop i n body acc = Inr (acc @ map g [i..<n])"
  using assms
proof (induction "n - i" arbitrary: i acc)
  case 0
  then show ?case by (simp add: for_loop_stop)
next
  case (Suc m)
  then have i: "i < n" and m: "m = n - Suc i" by simp_all
  have "for_loop (Suc i) n body (acc @ [g i]) = Inr ((acc @ [g i]) @ map g [Suc i..<n])"
    using Suc.hyps(1) [OF m] Suc.prems by simp
  then show ?case
    using i Suc.prems [of i acc] by (simp add: for_loop_step upt_conv_Cons)
qed

lemma for_loop_returns:
  assumes "\<And>k s. i \<le> k \<Longrightarrow> k < n \<Longrightarrow> \<exists>s'. body k s = Inr s'"
  shows "\<exists>s'. for_loop i n body s = Inr s'"
  using assms
proof (induction "n - i" arbitrary: i s)
  case 0
  then show ?case by (simp add: for_loop_stop)
next
  case (Suc m)
  then have i: "i < n" and m: "m = n - Suc i" by simp_all
  obtain s1 where s1: "body i s = Inr s1"
    using Suc.prems [of i s] i by auto
  have "\<exists>s'. for_loop (Suc i) n body s1 = Inr s'"
    using Suc.hyps(1) [OF m] Suc.prems by simp
  then show ?case
    using i s1 by (simp add: for_loop_step)
qed

lemma for_loop_reaches_failure:
  assumes "i \<le> m" and "m < n" and "\<And>s. body m s = Inl OutOfBounds"
  shows "for_loop i n body s = Inl OutOfBounds"
  using assms(1)
proof (induction "m - i" arbitrary: i s)
  case 0
  then have "i = m" by simp
  then show ?case
    using assms(2,3) by (simp add: for_loop_step)
next
  case (Suc d)
  then have i: "i < n" and d: "d = m - Suc i" and le: "Suc i \<le> m"
    using assms(2) by simp_all
  show ?case
  proof (cases "body i s")
    case (Inl e)
    then show ?thesis
      using i by (cases e) (simp add: for_loop_step)
  next
    case (Inr s1)
    then show ?thesis
      using i Suc.hyps(1) [OF d le] by (simp add: for_loop_step)
  qed
qed

section \<open>Locate::make3DBoundingBoxes\<close>

lemma make3DBoundingBoxes_eq:
  assumes "length points \<le> length bboxes"
    and "\<And>i. i < length points \<Longrightarrow> length (points ! i) \<le> length (bboxes ! i)"
    and "\<And>i j. i < length points \<Longrightarrow> j < length (points ! i) \<Longrightarrow> 3 \<le> length (points ! i ! j)"
  shows "make3DBoundingBoxes fx fy v points bboxes =
           Inr (map (\<lambda>i. map (\<lambda>j.
                  BoundingBox3D_ctor v (points ! i ! j ! 0) (points ! i ! j ! 1) (points ! i ! j ! 2)
                    (points ! i ! j ! 2 * w_bb (bboxes ! i ! j) / fx)
                    (points ! i ! j ! 2 * w_bb (bboxes ! i ! j) / fx)
                    (points ! i ! j ! 2 * h_bb (bboxes ! i ! j) / fy)
                    (confidence_bb (bboxes ! i ! j)) (class_id_bb (bboxes ! i ! j)))
                  [0..<length (points ! i)]) [0..<length points])"
proof -
  let ?cell = "\<lambda>i j. BoundingBox3D_ctor v (points ! i ! j ! 0) (points ! i ! j ! 1) (points ! i ! j ! 2)
                    (points ! i ! j ! 2 * w_bb (bboxes ! i ! j) / fx)
                    (points ! i ! j ! 2 * w_bb (bboxes ! i ! j) / fx)
                    (points ! i ! j ! 2 * h_bb (bboxes ! i ! j) / fy)
                    (confidence_bb (bboxes ! i ! j)) (class_id_bb (bboxes ! i ! j))"
  let ?inner = "\<lambda>i j tmp_bboxes3D.
               if i < length bboxes \<and> j < length (bboxes ! i) \<and> 2 < length (points ! i ! j) then
                 (let new_w = points ! i ! j ! 2 * w_bb (bboxes ! i ! j) / fx;
                      new_h = points ! i ! j ! 2 * h_bb (bboxes ! i ! j) / fy;
                      tmp = BoundingBox3D_ctor v (points ! i ! j ! 0) (points ! i ! j ! 1)
                              (points ! i ! j ! 2) new_w new_w new_h
                              (confidence_bb (bboxes ! i ! j)) (class_id_bb (bboxes ! i ! j))
                  in Inr (tmp_bboxes3D @ [tmp]))
               else Inl OutOfBounds"
  have inner: "for_loop 0 (length (points ! i)) (?inner i) [] = Inr ([] @ map (?cell i) [0..<length (points ! i)])"
    if i: "i < length points" for i
  proof (rule for_loop_collect)
    fix j acc
    assume j: "j < length (points ! i)"
    have "i < length bboxes" "j < length (bboxes ! i)" "2 < length (points ! i ! j)"
      using assms(1) assms(2) [OF i] assms(3) [OF i j] i j by simp_all
    then show "?inner i j acc = Inr (acc @ [?cell i j])"
      by (simp add: Let_def)
  qed
  have "for_loop 0 (length points)
          (\<lambda>i bboxes3D. case for_loop 0 (length (points ! i)) (?inner i) [] of
                           Inl e \<Rightarrow> Inl e
                         | Inr tmp_bboxes3D \<Rightarrow> Inr (bboxes3D @ [tmp_bboxes3D])) []
        = Inr ([] @ map (\<lambda>i. map (?cell i) [0..<length (points ! i)]) [0..<length points])"
  proof (rule for_loop_collect)
    fix i acc
    assume "i < length points"
    then show "(case for_loop 0 (length (points ! i)) (?inner i) [] of
                  Inl e \<Rightarrow> Inl e
                | Inr tmp_bboxes3D \<Rightarrow> Inr (acc @ [tmp_bboxes3D]))
               = Inr (acc @ [map (?cell i) [0..<length (points ! i)]])"
      by (simp add: inner)
  qed
  then show ?thesis
    unfolding make3DBoundingBoxes_def by simp
qed

text \<open>
  C7. For every localized box, \<open>points[i][j]\<close> with its 2D box \<open>bboxes[i][j]\<close>,
  \<open>Locate::make3DBoundingBoxes\<close> returns a 3D box at the same indices whose width is
  \<open>z * w / fx\<close>, whose height is \<open>z * h / fy\<close>, whose depth equals that width, whose centre
  is the point \<open>(X, Y, Z)\<close>, and whose confidence and class id are those of the 2D box. The
  hypotheses say that the points belong to the boxes: no more classes and no more points
  per class than there are boxes, and three coordinates per point.
\<close>

theorem C7_make3DBoundingBoxes:
  assumes "length points \<le> length bboxes"
    and "\<forall>i < length points. length (points ! i) \<le> length (bboxes ! i)"
    and "\<forall>i < length points. \<forall>j < length (points ! i). 3 \<le> length (points ! i ! j)"
  shows "\<exists>bboxes3D.
           make3DBoundingBoxes fx fy v points bboxes = Inr bboxes3D \<and>
           length bboxes3D = length points \<and>
           (\<forall>i < length points.
              length (bboxes3D ! i) = length (points ! i) \<and>
              (\<forall>j < length (points ! i).
                 w_bb3 (bboxes3D ! i ! j) = points ! i ! j ! 2 * w_bb (bboxes ! i ! j) / fx \<and>
                 h_bb3 (bboxes3D ! i ! j) = points ! i ! j ! 2 * h_bb (bboxes ! i ! j) / fy \<and>
                 d_bb3 (bboxes3D ! i ! j) = w_bb3 (bboxes3D ! i ! j) \<and>
                 x_bb3 (bboxes3D ! i ! j) = points ! i ! j ! 0 \<and>
                 y_bb3 (bboxes3D ! i ! j) = points ! i ! j ! 1 \<and>
                 z_bb3 (bboxes3D ! i ! j) = points ! i ! j ! 2 \<and>
                 confidence_bb3 (bboxes3D ! i ! j) = confidence_bb (bboxes ! i ! j) \<and>
                 class_id_bb3 (bboxes3D ! i ! j) = class_id_bb (bboxes ! i ! j)))"
proof -
  have "make3DBoundingBoxes fx fy v points bboxes =
           Inr (map (\<lambda>i. map (\<lambda>j.
                  BoundingBox3D_ctor v (points ! i ! j ! 0) (points ! i ! j ! 1) (points ! i ! j ! 2)
                    (points ! i ! j ! 2 * w_bb (bboxes ! i ! j) / fx)
                    (points ! i ! j ! 2 * w_bb (bboxes ! i ! j) / fx)
                    (points ! i ! j ! 2 * h_bb (bboxes ! i ! j) / fy)
                    (confidence_bb (bboxes ! i ! j)) (class_id_bb (bboxes ! i ! j)))
                  [0..<length (points ! i)]) [0..<length points])"
    using assms by (intro make3DBoundingBoxes_eq) simp_all
  then show ?thesis
    by (simp add: BoundingBox3D_ctor_def)
qed

theorem C7_witness:
  "length ex_points \<le> length [[ex_box 420 240 100 200 True], []] \<and>
   make3DBoundingBoxes 500 500 True ex_points [[ex_box 420 240 100 200 True], []] =
     Inr [[\<lparr> x_bb3 = 2 / 5, y_bb3 = 0, z_bb3 = 2, w_bb3 = 2 / 5, d_bb3 = 2 / 5, h_bb3 = 4 / 5,
              confidence_bb3 = 1, class_id_bb3 = 0, valid_bb3 = True \<rparr>], []]"
  using C7_make3DBoundingBoxes [of ex_points "[[ex_box 420 240 100 200 True], []]" 500 500 True]
  by (simp add: ex_points_def make3DBoundingBoxes_def for_loop.simps Let_def BoundingBox3D_ctor_def
      ex_box_def eval_nat_numeral)

section \<open>The drawing loops\<close>

lemma generateDetectionImage_fails:
  assumes "bboxes \<noteq> []"
  shows "generateDetectionImage d img bboxes = Inl OutOfBounds"
  unfolding generateDetectionImage_def
proof (rule for_loop_reaches_failure [of 0 0])
  show "0 < length bboxes" using assms by simp
  show "for_loop 0 (length (bboxes ! 0) + 1)
          (\<lambda>j img. if j < length (bboxes ! 0)
                    then let b = bboxes ! 0 ! j
                         in if \<not> valid_bb b then Inr img
                            else if 0 < length (class_map_det d)
                                 then Inr (img @ [Rectangle (x_min_bb b) (y_min_bb b) (w_bb b) (h_bb b) 0,
                                                   PutText (class_map_det d ! 0) (x_min_bb b) (y_min_bb b - 10) 0])
                                 else Inl OutOfBounds
                    else Inl OutOfBounds) s = Inl OutOfBounds" for s
    by (rule for_loop_reaches_failure [of 0 "length (bboxes ! 0)"]) simp_all
qed simp

lemma imageCallback_draw_fails:
  assumes "bboxes \<noteq> []"
  shows "imageCallback_draw ClassMap img bboxes = Inl OutOfBounds"
  unfolding imageCallback_draw_def
proof (rule for_loop_reaches_failure [of 0 0])
  show "0 < length bboxes" using assms by simp
  show "for_loop 0 (length (bboxes ! 0) + 1)
          (\<lambda>j img. if j < length (bboxes ! 0)
                    then let b = bboxes ! 0 ! j
                         in if \<not> valid_bb b then Inr img
                            else if 0 < length ClassMap
                                 then Inr (img @ [Rectangle (x_min_bb b) (y_min_bb b) (w_bb b) (h_bb b) 0,
                                                   PutText (ClassMap ! 0) (x_min_bb b) (y_min_bb b - 10) 0])
                                 else Inl OutOfBounds
                    else Inl OutOfBounds) s = Inl OutOfBounds" for s
    by (rule for_loop_reaches_failure [of 0 "length (bboxes ! 0)"]) simp_all
qed simp

lemma imageCallback_draw_global_returns:
  assumes "length bboxes \<le> length ClassMap"
  shows "\<exists>img'. imageCallback_draw_global ClassMap img bboxes = Inr img'"
  unfolding imageCallback_draw_global_def
proof (rule for_loop_returns)
  fix i s
  assume i: "i < length bboxes"
  show "\<exists>s'. for_loop 0 (length (bboxes ! i))
           (\<lambda>j img. if j < length (bboxes ! i)
                     then let b = bboxes ! i ! j
                          in if \<not> valid_bb b then Inr img
                             else if i < length ClassMap
                                  then Inr (img @ [Rectangle (x_min_bb b) (y_min_bb b) (w_bb b) (h_bb b) i,
                                                    PutText (ClassMap ! i) (x_min_bb b) (y_min_bb b - 10) i])
                                  else Inl OutOfBounds
                     else Inl OutOfBounds) s = Inr s'"
  proof (rule for_loop_returns)
    fix j s
    assume "j < length (bboxes ! i)"
    then show "\<exists>s'. (if j < length (bboxes ! i)
                     then let b = bboxes ! i ! j
                          in if \<not> valid_bb b then Inr s
                             else if i < length ClassMap
                                  then Inr (s @ [Rectangle (x_min_bb b) (y_min_bb b) (w_bb b) (h_bb b) i,
                                                    PutText (ClassMap ! i) (x_min_bb b) (y_min_bb b - 10) i])
                                  else Inl OutOfBounds
                     else Inl OutOfBounds) = Inr s'"
      using i assms by (simp add: Let_def)
  qed
qed

text \<open>
  C8. The drawing loops read \<open>bboxes[i][j]\<close> for \<open>j < bboxes[i].size()\<close> only. In
  \<open>Detect::generateDetectionImage\<close> and in the in-image tracking node the inner loop runs
  while \<open>j < bboxes[i].size() + 1\<close>: for one class with one valid box, the second
  iteration reads \<open>bboxes[0][1]\<close>, outside the vector. The loop of the global tracking
  node, which stops at \<open>bboxes[i].size()\<close>, draws the box and returns.
\<close>

theorem C8_drawing_loop_reads_past_the_end:
  "generateDetectionImage ex_detect [] [[ex_box 320 240 100 100 True]] = Inl OutOfBounds \<and>
   imageCallback_draw [''drone'', ''person''] [] [[ex_box 320 240 100 100 True]] = Inl OutOfBounds \<and>
   imageCallback_draw_global [''drone'', ''person''] [] [[ex_box 320 240 100 100 True]] =
     Inr [Rectangle 270 190 100 100 0, PutText ''drone'' 270 180 0]"
proof -
  have "imageCallback_draw_global [''drone'', ''person''] [] [[ex_box 320 240 100 100 True]] =
          Inr [Rectangle 270 190 100 100 0, PutText ''drone'' 270 180 0]"
    by (simp add: imageCallback_draw_global_def for_loop.simps ex_box_def)
  then show ?thesis
    by (simp add: generateDetectionImage_fails imageCallback_draw_fails)
qed

section \<open>What cast2states computes\<close>

lemma writes_six:
  assumes "length state = 6"
  shows "writes [(0, a0), (1, a1), (2, a2), (3, a3), (4, a4), (5, a5)] state = Inr [a0, a1, a2, a3, a4, a5]"
proof -
  obtain s0 s1 s2 s3 s4 s5 where "state = [s0, s1, s2, s3, s4, s5]"
    using assms by (auto simp add: length_Suc_conv eval_nat_numeral)
  then show ?thesis by simp
qed

lemma writes_nine_of_six:
  assumes "length state = 6"
  shows "writes [(0, a0), (1, a1), (2, a2), (3, a3), (4, a4), (5, a5), (6, a6), (7, a7), (8, a8)] state
           = Inl OutOfBounds"
  using assms by simp

lemma cast2states_body_accepted:
  assumes "length state = 6" and "accepted t (row ! j)"
  shows "cast2states_body t row j (state, state_vec) = Inr (state_of (row ! j), state_vec @ [state_of (row ! j)])"
proof -
  have "writes [(0, x_bb (row ! j)), (1, y_bb (row ! j)), (2, 0), (3, 0), (4, w_bb (row ! j)),
                (5, h_bb (row ! j))] state = Inr (state_of (row ! j))"
    unfolding state_of_def by (rule writes_six [OF assms(1)])
  then show ?thesis
    using assms(2)
    by (simp add: cast2states_body_def Let_def accepted_def del: writes.simps One_nat_def)
qed

lemma cast2states_body_skipped:
  assumes "\<not> accepted t (row ! j)"
  shows "cast2states_body t row j (state, state_vec) = Inr (state, state_vec)"
  using assms by (auto simp add: cast2states_body_def Let_def accepted_def)

lemma length_state_of: "length (state_of b) = 6"
  by (simp add: state_of_def)

lemma cast2states_inner:
  assumes "length state = 6"
  shows "\<exists>state'. length state' = 6 \<and>
           for_loop j (length row) (cast2states_body t row) (state, state_vec) =
             Inr (state', state_vec @ map state_of (filter (accepted t) (drop j row)))"
  using assms
proof (induction "length row - j" arbitrary: j state state_vec)
  case 0
  then show ?case by (simp add: for_loop_stop)
next
  case (Suc m)
  then have j: "j < length row" and m: "m = length row - Suc j" by simp_all
  have d: "drop j row = row ! j # drop (Suc j) row"
    using j by (simp add: Cons_nth_drop_Suc)
  show ?case
  proof (cases "accepted t (row ! j)")
    case True
    from Suc.hyps(1) [OF m length_state_of, of "row ! j" "state_vec @ [state_of (row ! j)]"]
    show ?thesis
      using True j Suc.prems d
      by (simp add: for_loop_step cast2states_body_accepted)
  next
    case False
    from Suc.hyps(1) [OF m Suc.prems, of state_vec]
    show ?thesis
      using False j d
      by (simp add: for_loop_step cast2states_body_skipped)
  qed
qed

lemma cast2states_outer:
  assumes "length state = 6"
  shows "\<exists>state'. length state' = 6 \<and>
           for_loop i (length bboxes) (\<lambda>i (state, states).
              (case for_loop (j0 i) (length (bboxes ! i)) (cast2states_body t (bboxes ! i)) (state, [])
               of Inl e \<Rightarrow> Inl e
                | Inr (state', state_vec) \<Rightarrow> Inr (state', states @ [state_vec])))
             (state, states) =
             Inr (state', states @ map (\<lambda>k. map state_of (filter (accepted t) (drop (j0 k) (bboxes ! k))))
                                     [i..<length bboxes])"
  using assms
proof (induction "length bboxes - i" arbitrary: i state states)
  case 0
  then show ?case by (simp add: for_loop_stop)
next
  case (Suc m)
  then have i: "i < length bboxes" and m: "m = length bboxes - Suc i" by simp_all
  obtain state1 where s1: "length state1 = 6"
    and inner: "for_loop (j0 i) (length (bboxes ! i)) (cast2states_body t (bboxes ! i)) (state, []) =
                  Inr (state1, [] @ map state_of (filter (accepted t) (drop (j0 i) (bboxes ! i))))"
    using cast2states_inner [OF Suc.prems] by blast
  from Suc.hyps(1) [OF m s1, of "states @ [map state_of (filter (accepted t) (drop (j0 i) (bboxes ! i)))]"]
  show ?case
    using i inner by (simp add: for_loop_step upt_conv_Cons)
qed

lemma cast2states_eq:
  "cast2states t bboxes i0 j0 =
     Inr (map (\<lambda>k. map state_of (filter (accepted t) (drop (j0 k) (bboxes ! k)))) [i0..<length bboxes])"
proof -
  have "length (replicate 6 (0::real)) = 6" by simp
  from cast2states_outer [OF this, of i0 bboxes j0 t "[]"]
  show ?thesis
    unfolding cast2states_def by auto
qed

lemma cast2states_from_zero:
  "cast2states t bboxes 0 (\<lambda>i. 0) = Inr (map (\<lambda>row. map state_of (filter (accepted t) row)) bboxes)"
proof -
  have "map (\<lambda>k. map state_of (filter (accepted t) (bboxes ! k))) [0..<length bboxes]
          = map (\<lambda>row. map state_of (filter (accepted t) row)) (map (nth bboxes) [0..<length bboxes])"
    by (simp add: comp_def)
  then show ?thesis
    by (simp add: cast2states_eq map_nth)
qed

subsection \<open>Track3D::cast2states\<close>

lemma cast2states3D_body_accepted:
  assumes "length state = 6" and "accepted3D t (row ! j)"
  shows "cast2states3D_body t row j (state, state_vec) = Inl OutOfBounds"
  using assms by (simp add: cast2states3D_body_def Let_def accepted3D_def)

lemma cast2states3D_body_skipped:
  assumes "\<not> accepted3D t (row ! j)"
  shows "cast2states3D_body t row j (state, state_vec) = Inr (state, state_vec)"
  using assms by (auto simp add: cast2states3D_body_def Let_def accepted3D_def)

lemma cast2states3D_inner:
  assumes "length state = 6"
  shows "for_loop j (length row) (cast2states3D_body t row) (state, state_vec) =
           (if \<exists>b \<in> set (drop j row). accepted3D t b then Inl OutOfBounds else Inr (state, state_vec))"
proof (induction "length row - j" arbitrary: j)
  case 0
  then show ?case by (simp add: for_loop_stop)
next
  case (Suc m)
  then have j: "j < length row" and m: "m = length row - Suc j" by simp_all
  have d: "drop j row = row ! j # drop (Suc j) row"
    using j by (simp add: Cons_nth_drop_Suc)
  show ?case
  proof (cases "accepted3D t (row ! j)")
    case True
    then show ?thesis
      using j d by (simp add: for_loop_step cast2states3D_body_accepted [OF assms])
  next
    case False
    then show ?thesis
      using j d Suc.hyps(1) [OF m]
      by (simp add: for_loop_step cast2states3D_body_skipped)
  qed
qed

lemma cast2states3D_outer:
  assumes "length state = 6"
  shows "for_loop i (length bboxes) (\<lambda>i (state, states).
              (case for_loop (j0 i) (length (bboxes ! i)) (cast2states3D_body t (bboxes ! i)) (state, [])
               of Inl e \<Rightarrow> Inl e
                | Inr (state', state_vec) \<Rightarrow> Inr (state', states @ [state_vec])))
             (state, states) =
           (if \<exists>k. i \<le> k \<and> k < length bboxes \<and> (\<exists>b \<in> set (drop (j0 k) (bboxes ! k)). accepted3D t b)
            then Inl OutOfBounds
            else Inr (state, states @ map (\<lambda>k. []) [i..<length bboxes]))"
proof (induction "length bboxes - i" arbitrary: i states)
  case 0
  then show ?case by (simp add: for_loop_stop)
next
  case (Suc m)
  then have i: "i < length bboxes" and m: "m = length bboxes - Suc i" by simp_all
  show ?case
  proof (cases "\<exists>b \<in> set (drop (j0 i) (bboxes ! i)). accepted3D t b")
    case True
    then have "\<exists>k. i \<le> k \<and> k < length bboxes \<and> (\<exists>b \<in> set (drop (j0 k) (bboxes ! k)). accepted3D t b)"
      using i by blast
    then show ?thesis
      using True i by (simp add: for_loop_step cast2states3D_inner [OF assms])
  next
    case False
    have "(\<exists>k. i \<le> k \<and> k < length bboxes \<and> (\<exists>b \<in> set (drop (j0 k) (bboxes ! k)). accepted3D t b))
        = (\<exists>k. Suc i \<le> k \<and> k < length bboxes \<and> (\<exists>b \<in> set (drop (j0 k) (bboxes ! k)). accepted3D t b))"
      using False by (metis Suc_leI le_neq_implies_less Suc_leD)
    then show ?thesis
      using False i Suc.hyps(1) [OF m, of "states @ [[]]"]
      by (auto simp add: for_loop_step cast2states3D_inner [OF assms] upt_conv_Cons)
  qed
qed

lemma cast2states3D_eq:
  "cast2states3D t bboxes i0 j0 =
     (if \<exists>k. i0 \<le> k \<and> k < length bboxes \<and> (\<exists>b \<in> set (drop (j0 k) (bboxes ! k)). accepted3D t b)
      then Inl OutOfBounds
      else Inr (map (\<lambda>k. []) [i0..<length bboxes]))"
proof -
  have "length (replicate 6 (0::real)) = 6" by simp
  from cast2states3D_outer [OF this, of i0 bboxes j0 t "[]"]
  show ?thesis
    unfolding cast2states3D_def by auto
qed

section \<open>The constructors, and cast2states on their objects\<close>

lemma ex_track2D_simps:
  "min_bbox_width_t2 ex_track2D = 60" "max_bbox_width_t2 ex_track2D = 400"
  "min_bbox_height_t2 ex_track2D = 60" "max_bbox_height_t2 ex_track2D = 400"
  "Trackers_t2 ex_track2D = [[], []]" "dt_t2 ex_track2D = 1 / 50"
  by (simp_all add: ex_track2D_def Track2D_ctor_def ex_bbo_p_def ex_det_p_def ex_new_Tracker_def
      ex_tra_p_def eval_nat_numeral)

lemma ex_track3D_simps:
  "min_bbox_width_t3 ex_track3D = 1 / 10" "max_bbox_width_t3 ex_track3D = 3"
  "min_bbox_height_t3 ex_track3D = 1 / 10" "max_bbox_height_t3 ex_track3D = 3"
  by (simp_all add: ex_track3D_def Track3D_ctor_def ex_bbo_p3_def)

lemma accepted_ex:
  "accepted ex_track2D (ex_box x y w h v) = (v \<and> 60 \<le> w \<and> w \<le> 400 \<and> 60 \<le> h \<and> h \<le> 400)"
  by (auto simp add: accepted_def ex_track2D_simps ex_box_simps)

lemma accepted3D_ex: "accepted3D ex_track3D ex_box3D"
  by (simp add: accepted3D_def ex_track3D_simps ex_box3D_def BoundingBox3D_ctor_def)

text \<open>
  C1. The constructors store the configured maximum height in \<open>max_bbox_height_\<close>, so
  that \<open>cast2states\<close> compares a detection's height with \<open>max_bbox_height\<close>. The code
  stores \<open>max_bbox_width\<close> there, in both constructors and both \<open>build\<close> variants. With
  \<open>max_bbox_width = 400\<close> and \<open>max_bbox_height = 300\<close>, a valid box of height 350 is
  higher than the configured maximum and is cast to a state all the same.
\<close>

theorem C1_max_bbox_height_holds_max_bbox_width:
  "max_bbox_height_t2 (Track2D_ctor new_Tracker2D det_p kal_p tra_p bbo_p) = max_bbox_width bbo_p \<and>
   max_bbox_height_t2 (buildTrack2D new_Tracker2D t2 det_p kal_p tra_p bbo_p) = max_bbox_width bbo_p \<and>
   max_bbox_height_t3 (Track3D_ctor new_Tracker3D det_p kal_p tra_p bbo_p) = max_bbox_width bbo_p \<and>
   max_bbox_height_t3 (buildTrack3D new_Tracker3D t3 det_p kal_p tra_p bbo_p) = max_bbox_width bbo_p \<and>
   max_bbox_height ex_bbo_p = 300 \<and>
   max_bbox_height ex_bbo_p < h_bb (ex_box 320 240 100 350 True) \<and>
   cast2states ex_track2D [[ex_box 320 240 100 350 True]] 0 (\<lambda>i. 0) = Inr [[[320, 240, 0, 0, 100, 350]]]"
  by (simp add: Track2D_ctor_def buildTrack2D_def Track3D_ctor_def buildTrack3D_def ex_bbo_p_def
      cast2states_from_zero accepted_ex state_of_def ex_box_simps)

text \<open>
  The node's \<open>cast2states\<close> puts the height at index 4 and the width at index 5.
\<close>

lemma cast2states_node_example:
  "cast2states_node ex_node [[ex_box 320 240 100 120 True]] 0 (\<lambda>i. 0) = Inr [[[320, 240, 0, 0, 120, 100]]]"
  by (simp add: cast2states_node_def cast2states_node_body_def for_loop.simps ex_node_simps ex_box_simps
      Let_def eval_nat_numeral)

text \<open>
  C2. \<open>Track2D::cast2states\<close> returns one state list per class, with both loop counters
  starting at 0, and casts an accepted box to \<open>(x, y, 0, 0, w, h)\<close>. The counters have no
  initialiser in the code. For one class with one accepted box: an outer counter that
  starts at 1 gives no state list at all, an inner counter that starts at 1 gives an empty
  state list, and only counters that start at 0 give the state of the box.
\<close>

theorem C2_cast2states_uninitialised_counters:
  "cast2states ex_track2D [[ex_box 320 240 100 100 True]] 1 (\<lambda>i. 0) = Inr [] \<and>
   cast2states ex_track2D [[ex_box 320 240 100 100 True]] 0 (\<lambda>i. 1) = Inr [[]] \<and>
   cast2states ex_track2D [[ex_box 320 240 100 100 True]] 0 (\<lambda>i. 0) = Inr [[[320, 240, 0, 0, 100, 100]]]"
  by (simp add: cast2states_eq accepted_ex state_of_def ex_box_simps)

text \<open>
  C3. \<open>Track3D::cast2states\<close> allocates the state vector with the nine entries it writes.
  The code allocates six: for one class with one accepted box, and both counters starting
  at 0, the assignment to \<open>state[6]\<close> is outside the vector.
\<close>

theorem C3_cast2states3D_writes_out_of_bounds:
  "accepted3D ex_track3D ex_box3D \<and>
   length (replicate 6 (0::real)) = 6 \<and>
   cast2states3D_body ex_track3D [ex_box3D] 0 (replicate 6 0, []) = Inl OutOfBounds \<and>
   cast2states3D ex_track3D [[ex_box3D]] 0 (\<lambda>i. 0) = Inl OutOfBounds"
  by (simp add: cast2states3D_eq accepted3D_ex cast2states3D_body_accepted)

section \<open>Boxes that are not valid\<close>

lemma accepted_valid: "accepted t b \<Longrightarrow> valid_bb b"
  by (simp add: accepted_def)

lemma accepted3D_valid: "accepted3D t b \<Longrightarrow> valid_bb3 b"
  by (simp add: accepted3D_def)

lemma adjustBoundingBoxes_invalid:
  assumes "i < length bboxes" and "j < length (bboxes ! i)" and "\<not> valid_bb (bboxes ! i ! j)"
  shows "adjustBoundingBoxes d bboxes ! i ! j = bboxes ! i ! j"
    and "adjustBoundingBoxes_node n bboxes ! i ! j = bboxes ! i ! j"
  using assms
  by (simp_all add: adjustBoundingBoxes_nth adjustBoundingBoxes_node_nth adjust_box_invalid
      adjust_box_node_invalid)

lemma cast2states_emits_valid:
  "\<exists>states. cast2states t bboxes i0 j0 = Inr states \<and>
     (\<forall>row \<in> set states. \<forall>s \<in> set row. \<exists>r \<in> set bboxes. \<exists>b \<in> set r. valid_bb b \<and> s = state_of b)"
proof -
  have "\<exists>r \<in> set bboxes. \<exists>b \<in> set r. valid_bb b \<and> s = state_of b"
    if "k \<in> set [i0..<length bboxes]"
      and "s \<in> set (map state_of (filter (accepted t) (drop (j0 k) (bboxes ! k))))" for k s
  proof -
    from that(2) obtain b where b: "b \<in> set (drop (j0 k) (bboxes ! k))" "accepted t b" "s = state_of b"
      by auto
    have "b \<in> set (bboxes ! k)"
      using b(1) by (rule in_set_dropD)
    moreover have "bboxes ! k \<in> set bboxes"
      using that(1) by simp
    ultimately show ?thesis
      using b(2,3) accepted_valid by blast
  qed
  then show ?thesis
    unfolding cast2states_eq by auto
qed

lemma cast2states3D_emits_nothing:
  assumes "cast2states3D t bboxes i0 j0 = Inr states"
  shows "\<forall>row \<in> set states. row = []"
  using assms by (auto simp add: cast2states3D_eq split: if_splits)

lemma cast2states3D_all_invalid:
  assumes "\<forall>r \<in> set bboxes. \<forall>b \<in> set r. \<not> valid_bb3 b"
  shows "cast2states3D t bboxes i0 j0 = Inr (map (\<lambda>k. []) [i0..<length bboxes])"
proof -
  have "\<not> accepted3D t b" if "k < length bboxes" and "b \<in> set (drop (j0 k) (bboxes ! k))" for k b
  proof -
    have "b \<in> set (bboxes ! k)"
      using that(2) by (rule in_set_dropD)
    moreover have "bboxes ! k \<in> set bboxes"
      using that(1) by simp
    ultimately have "\<not> valid_bb3 b"
      using assms by blast
    then show ?thesis
      using accepted3D_valid by blast
  qed
  then show ?thesis
    unfolding cast2states3D_eq by auto
qed

text \<open>
  C10. A box whose valid flag is false is left as it is by \<open>adjustBoundingBoxes\<close>, field by
  field, in the library and in the node. \<open>Track2D::cast2states\<close> returns, whatever its
  counters start from, and every state it emits is the state of a valid box of its input.
  \<open>Track3D::cast2states\<close> emits no state when it returns, and it returns with one empty
  list per class visited when no box of its input is valid.
\<close>

theorem C10_invalid_boxes_untouched:
  "(\<forall>i < length bboxes. \<forall>j < length (bboxes ! i). \<not> valid_bb (bboxes ! i ! j) \<longrightarrow>
      adjustBoundingBoxes d bboxes ! i ! j = bboxes ! i ! j \<and>
      adjustBoundingBoxes_node n bboxes ! i ! j = bboxes ! i ! j) \<and>
   (\<exists>states. cast2states t bboxes i0 j0 = Inr states \<and>
      (\<forall>row \<in> set states. \<forall>s \<in> set row. \<exists>r \<in> set bboxes. \<exists>b \<in> set r. valid_bb b \<and> s = state_of b)) \<and>
   (\<forall>states. cast2states3D t3 bboxes3 i3 j3 = Inr states \<longrightarrow> (\<forall>row \<in> set states. row = [])) \<and>
   ((\<forall>r \<in> set bboxes3. \<forall>b \<in> set r. \<not> valid_bb3 b) \<longrightarrow>
      cast2states3D t3 bboxes3 i3 j3 = Inr (map (\<lambda>k. []) [i3..<length bboxes3]))"
  using adjustBoundingBoxes_invalid(1) [of _ bboxes _ d] adjustBoundingBoxes_invalid(2) [of _ bboxes _ n]
    cast2states_emits_valid [of t bboxes i0 j0]
    cast2states3D_emits_nothing [of t3 bboxes3 i3 j3] cast2states3D_all_invalid [of bboxes3 t3 i3 j3]
  by blast

theorem C10_witness:
  "\<not> valid_bb ([[ex_box 320 240 100 100 False, ex_box 320 240 100 100 True]] ! 0 ! 0) \<and>
   adjustBoundingBoxes ex_detect [[ex_box 320 240 100 100 False, ex_box 320 240 100 100 True]] ! 0 ! 0
     = ex_box 320 240 100 100 False \<and>
   adjustBoundingBoxes_node ex_node [[ex_box 320 240 100 100 False, ex_box 320 240 100 100 True]] ! 0 ! 0
     = ex_box 320 240 100 100 False \<and>
   cast2states ex_track2D [[ex_box 320 240 100 100 False, ex_box 320 240 100 100 True]] 0 (\<lambda>i. 0)
     = Inr [[state_of (ex_box 320 240 100 100 True)]] \<and>
   \<not> valid_bb3 (ex_box3D \<lparr> valid_bb3 := False \<rparr>) \<and>
   cast2states3D ex_track3D [[ex_box3D \<lparr> valid_bb3 := False \<rparr>]] 0 (\<lambda>i. 0) = Inr [[]]"
  using C10_invalid_boxes_untouched [of "[[ex_box 320 240 100 100 False, ex_box 320 240 100 100 True]]"
      ex_detect ex_node ex_track2D 0 "\<lambda>i. 0" ex_track3D "[[ex_box3D \<lparr> valid_bb3 := False \<rparr>]]" 0 "\<lambda>i. 0"]
  by (simp add: ex_box_simps cast2states_from_zero accepted_ex)

section \<open>Track2D::track\<close>

lemma track_loop:
  assumes "length tss = n" and "n \<le> length states" and "n \<le> length (Trackers_t2 t)"
  shows "\<exists>t' tss'.
           for_loop i n (\<lambda>i (t, tracker_states).
              if i < length states \<and> i < length (Trackers_t2 t) then
                (let states_to_track = states ! i;
                     tr = update delta states_to_track (Trackers_t2 t ! i)
                 in Inr (t \<lparr> Trackers_t2 := (Trackers_t2 t)[i := tr] \<rparr>,
                         tracker_states[i := getStates tr (tracker_states ! i)]))
              else Inl OutOfBounds) (t, tss) = Inr (t', tss') \<and>
           t' = t \<lparr> Trackers_t2 := Trackers_t2 t' \<rparr> \<and>
           length tss' = n \<and> length (Trackers_t2 t') = length (Trackers_t2 t) \<and>
           (\<forall>k < length (Trackers_t2 t).
              Trackers_t2 t' ! k =
                (if i \<le> k \<and> k < n then update delta (states ! k) (Trackers_t2 t ! k) else Trackers_t2 t ! k)) \<and>
           (\<forall>k < n.
              tss' ! k =
                (if i \<le> k then getStates (update delta (states ! k) (Trackers_t2 t ! k)) (tss ! k) else tss ! k))"
  using assms
proof (induction "n - i" arbitrary: i t tss)
  case 0
  then show ?case by (auto simp add: for_loop_stop)
next
  case (Suc m)
  then have i: "i < n" and m: "m = n - Suc i" by simp_all
  let ?tr = "update delta (states ! i) (Trackers_t2 t ! i)"
  let ?t1 = "t \<lparr> Trackers_t2 := (Trackers_t2 t)[i := ?tr] \<rparr>"
  let ?tss1 = "tss[i := getStates ?tr (tss ! i)]"
  have pre: "length ?tss1 = n" "n \<le> length states" "n \<le> length (Trackers_t2 ?t1)"
    using Suc.prems by simp_all
  from Suc.hyps(1) [OF m pre] obtain t' tss' where
    run: "for_loop (Suc i) n (\<lambda>i (t, tracker_states).
              if i < length states \<and> i < length (Trackers_t2 t) then
                (let states_to_track = states ! i;
                     tr = update delta states_to_track (Trackers_t2 t ! i)
                 in Inr (t \<lparr> Trackers_t2 := (Trackers_t2 t)[i := tr] \<rparr>,
                         tracker_states[i := getStates tr (tracker_states ! i)]))
              else Inl OutOfBounds) (?t1, ?tss1) = Inr (t', tss')"
    and frame: "t' = ?t1 \<lparr> Trackers_t2 := Trackers_t2 t' \<rparr>"
    and len: "length tss' = n" "length (Trackers_t2 t') = length (Trackers_t2 ?t1)"
    and trs: "\<forall>k < length (Trackers_t2 ?t1).
              Trackers_t2 t' ! k =
                (if Suc i \<le> k \<and> k < n then update delta (states ! k) (Trackers_t2 ?t1 ! k)
                 else Trackers_t2 ?t1 ! k)"
    and tss: "\<forall>k < n.
              tss' ! k =
                (if Suc i \<le> k then getStates (update delta (states ! k) (Trackers_t2 ?t1 ! k)) (?tss1 ! k)
                 else ?tss1 ! k)"
    by blast
  have step: "for_loop i n (\<lambda>i (t, tracker_states).
              if i < length states \<and> i < length (Trackers_t2 t) then
                (let states_to_track = states ! i;
                     tr = update delta states_to_track (Trackers_t2 t ! i)
                 in Inr (t \<lparr> Trackers_t2 := (Trackers_t2 t)[i := tr] \<rparr>,
                         tracker_states[i := getStates tr (tracker_states ! i)]))
              else Inl OutOfBounds) (t, tss) = Inr (t', tss')"
    using i Suc.prems run by (simp add: for_loop_step Let_def)
  have "t' = t \<lparr> Trackers_t2 := Trackers_t2 t' \<rparr>"
    using frame by simp
  moreover have "Trackers_t2 t' ! k =
                (if i \<le> k \<and> k < n then update delta (states ! k) (Trackers_t2 t ! k) else Trackers_t2 t ! k)"
    if "k < length (Trackers_t2 t)" for k
  proof -
    consider "k < i" | "k = i" | "i < k" by linarith
    then show ?thesis
      using trs that i Suc.prems by cases (simp_all add: nth_list_update)
  qed
  moreover have "tss' ! k =
                (if i \<le> k then getStates (update delta (states ! k) (Trackers_t2 t ! k)) (tss ! k) else tss ! k)"
    if "k < n" for k
  proof -
    consider "k < i" | "k = i" | "i < k" by linarith
    then show ?thesis
      using tss that i Suc.prems by cases (simp_all add: nth_list_update)
  qed
  ultimately show ?case
    using step len by simp
qed

lemma track_from_zero:
  assumes "length tracker_states \<le> length bboxes"
    and "length tracker_states \<le> length (Trackers_t2 t)"
  shows "\<exists>t' tracker_states'.
           track update getStates t bboxes tracker_states delta 0 (\<lambda>i. 0) = Inr (t', tracker_states') \<and>
           t' = t \<lparr> Trackers_t2 := Trackers_t2 t' \<rparr> \<and>
           length tracker_states' = length tracker_states \<and>
           length (Trackers_t2 t') = length (Trackers_t2 t) \<and>
           (\<forall>i < length tracker_states.
              Trackers_t2 t' ! i = update delta (map state_of (filter (accepted t) (bboxes ! i))) (Trackers_t2 t ! i) \<and>
              tracker_states' ! i = getStates (Trackers_t2 t' ! i) (tracker_states ! i)) \<and>
           (\<forall>i < length (Trackers_t2 t). length tracker_states \<le> i \<longrightarrow> Trackers_t2 t' ! i = Trackers_t2 t ! i)"
proof -
  let ?states = "map (\<lambda>row. map state_of (filter (accepted t) row)) bboxes"
  have "length tracker_states \<le> length ?states"
    using assms(1) by simp
  from track_loop [OF refl this assms(2), where update = update and delta = delta
      and getStates = getStates and i = 0]
  obtain t' tss' where
    run: "for_loop 0 (length tracker_states) (\<lambda>i (t, tracker_states).
              if i < length ?states \<and> i < length (Trackers_t2 t) then
                (let states_to_track = ?states ! i;
                     tr = update delta states_to_track (Trackers_t2 t ! i)
                 in Inr (t \<lparr> Trackers_t2 := (Trackers_t2 t)[i := tr] \<rparr>,
                         tracker_states[i := getStates tr (tracker_states ! i)]))
              else Inl OutOfBounds) (t, tracker_states) = Inr (t', tss')"
    and frame: "t' = t \<lparr> Trackers_t2 := Trackers_t2 t' \<rparr>"
    and len: "length tss' = length tracker_states" "length (Trackers_t2 t') = length (Trackers_t2 t)"
    and trs: "\<forall>k < length (Trackers_t2 t).
              Trackers_t2 t' ! k =
                (if 0 \<le> k \<and> k < length tracker_states then update delta (?states ! k) (Trackers_t2 t ! k)
                 else Trackers_t2 t ! k)"
    and tss: "\<forall>k < length tracker_states.
              tss' ! k =
                (if 0 \<le> k then getStates (update delta (?states ! k) (Trackers_t2 t ! k)) (tracker_states ! k)
                 else tracker_states ! k)"
    by blast
  have "track update getStates t bboxes tracker_states delta 0 (\<lambda>i. 0) = Inr (t', tss')"
    using run by (simp add: track_def cast2states_from_zero)
  moreover have "\<forall>i < length tracker_states.
              Trackers_t2 t' ! i = update delta (map state_of (filter (accepted t) (bboxes ! i))) (Trackers_t2 t ! i) \<and>
              tss' ! i = getStates (Trackers_t2 t' ! i) (tracker_states ! i)"
    using trs tss assms by simp
  moreover have "\<forall>i < length (Trackers_t2 t). length tracker_states \<le> i \<longrightarrow> Trackers_t2 t' ! i = Trackers_t2 t ! i"
    using trs by simp
  ultimately show ?thesis
    using frame len by blast
qed

text \<open>
  C9. \<open>Track2D::track\<close> updates the tracker of class \<open>i\<close> with the states cast from the
  boxes of class \<open>i\<close> and of no other class. It reads them from \<open>states[i]\<close>, which
  \<open>cast2states\<close> fills from the class its outer counter starts at. With two classes, one
  box each, and a \<open>tracker_states\<close> of one entry: when the counter starts at 1, the
  tracker of class 0 is updated with the box of class 1; with a \<open>tracker_states\<close> of two
  entries \<open>states[1]\<close> is then read outside the vector. When both counters start at 0,
  each tracker gets the box of its class (\<open>track_from_zero\<close> is the general statement).
\<close>

theorem C9_track_uninitialised_counter_crosses_classes:
  "track ex_update ex_getStates ex_track2D
     [[ex_box 100 100 100 100 True], [ex_box 200 200 100 100 True]] [[]] (1 / 50) 1 (\<lambda>i. 0)
     = Inr (ex_track2D \<lparr> Trackers_t2 := [[[[200, 200, 0, 0, 100, 100]]], []] \<rparr>,
            [[[[200, 200, 0, 0, 100, 100]]]]) \<and>
   track ex_update ex_getStates ex_track2D
     [[ex_box 100 100 100 100 True], [ex_box 200 200 100 100 True]] [[], []] (1 / 50) 1 (\<lambda>i. 0)
     = Inl OutOfBounds \<and>
   track ex_update ex_getStates ex_track2D
     [[ex_box 100 100 100 100 True], [ex_box 200 200 100 100 True]] [[], []] (1 / 50) 0 (\<lambda>i. 0)
     = Inr (ex_track2D \<lparr> Trackers_t2 := [[[[100, 100, 0, 0, 100, 100]]], [[[200, 200, 0, 0, 100, 100]]]] \<rparr>,
            [[[[100, 100, 0, 0, 100, 100]]], [[[200, 200, 0, 0, 100, 100]]]])"
  by (simp add: track_def cast2states_eq accepted_ex state_of_def ex_box_simps for_loop.simps
      ex_track2D_simps ex_update_def ex_getStates_def Let_def upt_conv_Cons)

end
